theory Spec2Isabelle
  imports Main
begin

section \<open>The offline asset cache manager of sw.js\<close>

text \<open>
  A shallow embedding of the service worker \<^verbatim>\<open>sw.js\<close>: its route table, its five
  caching strategies, the eviction step, the offline fallback, the install handler and
  the prefetch command.

  The platform (the browser's Cache API, \<^verbatim>\<open>fetch\<close>, the clock) is modelled as follows.
  \<^item> A cache is an ordered list of (request URL, response) pairs, oldest first;
    \<^verbatim>\<open>cache.keys()\<close> lists them in that order, \<^verbatim>\<open>cache.put\<close> removes the pair stored
    under the same URL and appends the new one, \<^verbatim>\<open>cache.delete\<close> removes the pair.
  \<^item> The cache storage (\<^verbatim>\<open>caches\<close>) is a list of (name, cache) pairs;
    \<^verbatim>\<open>caches.open\<close> creates an empty cache when the name is new.
  \<^item> The network is a function from a URL to either a failure or a response.
  \<^item> Every platform call is recorded in a log, so that "no network call" and "no store
    access" are statements about the log.
  \<^item> One call of a handler runs without interleaving, and cache operations themselves
    do not fail; the background write of stale-while-revalidate is placed before the
    function returns.
\<close>

subsection \<open>Responses, requests, failures\<close>

text \<open>
  The \<^verbatim>\<open>sw-cache-time\<close> header of a stored response: absent, an ISO date (read back
  by \<^verbatim>\<open>new Date(..).getTime()\<close> as the milliseconds it was written from), or a value
  no date parses from (\<^verbatim>\<open>getTime()\<close> is then NaN).
\<close>

datatype cache_time_header = NoHeader | Stamp int | Unparsable

record response =
  status :: nat
  body :: string
  sw_cache_time :: cache_time_header

text \<open>\<^verbatim>\<open>response.ok\<close>: the status is in the range 200 to 299.\<close>

definition ok :: "response \<Rightarrow> bool" where
  "ok r = (200 \<le> status r \<and> status r \<le> 299)"

text \<open>
  A request carries its parsed URL (\<^verbatim>\<open>new URL(request.url)\<close> is the platform's):
  the full \<^verbatim>\<open>href\<close>, the \<^verbatim>\<open>pathname\<close> and the \<^verbatim>\<open>protocol\<close>. A cache matches a
  request by its \<^verbatim>\<open>href\<close>.
\<close>

record url =
  href :: string
  pathname :: string
  protocol :: string

record request =
  req_url :: url
  req_method :: string
  destination :: string

datatype failure =
    NetworkError string
  | AddAllFailed
  | NoCachedResponseAvailable
  | OfflineAndNoCachedResponse

text \<open>
  What an async function of the worker settles to: a response, the value
  \<^verbatim>\<open>undefined\<close>, or a thrown failure.
\<close>

datatype result = Response response | Undefined | Throws failure

subsection \<open>Platform state and primitives\<close>

datatype event =
    Fetch string
  | CacheOpen string
  | CacheMatch string string
  | CachePut string string
  | CacheKeys string
  | CacheDelete string string

type_synonym store = "(string \<times> response) list"

record sw_state =
  caches :: "(string \<times> store) list"
  log :: "event list"

definition store_of :: "(string \<times> store) list \<Rightarrow> string \<Rightarrow> store" where
  "store_of cs name = (case map_of cs name of Some s \<Rightarrow> s | None \<Rightarrow> [])"

fun set_store :: "string \<Rightarrow> store \<Rightarrow> (string \<times> store) list \<Rightarrow> (string \<times> store) list" where
  "set_store name s [] = [(name, s)]"
| "set_store name s ((n, t) # cs) =
     (if n = name then (name, s) # cs else (n, t) # set_store name s cs)"

definition emit :: "event \<Rightarrow> sw_state \<Rightarrow> sw_state" where
  "emit e st = st\<lparr>log := log st @ [e]\<rparr>"

text \<open>\<^verbatim>\<open>caches.open(name)\<close>: the cache is created empty when it does not exist.\<close>

definition caches_open :: "string \<Rightarrow> sw_state \<Rightarrow> sw_state" where
  "caches_open name st =
     emit (CacheOpen name)
       (case map_of (caches st) name of
          Some s \<Rightarrow> st
        | None \<Rightarrow> st\<lparr>caches := caches st @ [(name, [])]\<rparr>)"

text \<open>\<^verbatim>\<open>cache.match(key)\<close>: the stored response, or \<^verbatim>\<open>undefined\<close> (here \<open>None\<close>).\<close>

definition cache_match :: "string \<Rightarrow> string \<Rightarrow> sw_state \<Rightarrow> response option \<times> sw_state" where
  "cache_match name key st =
     (map_of (store_of (caches st) name) key, emit (CacheMatch name key) st)"

definition remove_key :: "string \<Rightarrow> store \<Rightarrow> store" where
  "remove_key key s = filter (\<lambda>kv. fst kv \<noteq> key) s"

definition put_entry :: "string \<Rightarrow> response \<Rightarrow> store \<Rightarrow> store" where
  "put_entry key r s = remove_key key s @ [(key, r)]"

definition cache_put :: "string \<Rightarrow> string \<Rightarrow> response \<Rightarrow> sw_state \<Rightarrow> sw_state" where
  "cache_put name key r st =
     emit (CachePut name key)
       (st\<lparr>caches := set_store name (put_entry key r (store_of (caches st) name)) (caches st)\<rparr>)"

definition cache_keys :: "string \<Rightarrow> sw_state \<Rightarrow> string list \<times> sw_state" where
  "cache_keys name st = (map fst (store_of (caches st) name), emit (CacheKeys name) st)"

definition cache_delete :: "string \<Rightarrow> string \<Rightarrow> sw_state \<Rightarrow> sw_state" where
  "cache_delete name key st =
     emit (CacheDelete name key)
       (st\<lparr>caches := set_store name (remove_key key (store_of (caches st) name)) (caches st)\<rparr>)"

type_synonym network = "string \<Rightarrow> failure + response"

definition fetch :: "network \<Rightarrow> string \<Rightarrow> sw_state \<Rightarrow> (failure + response) \<times> sw_state" where
  "fetch net u st = (net u, emit (Fetch u) st)"

text \<open>
  The surroundings of one request: the network, the clock read by \<^verbatim>\<open>Date.now()\<close> in the
  freshness check, and the clock read by \<^verbatim>\<open>new Date()\<close> when a response is stamped.
  Times are milliseconds since the epoch.
\<close>

record world =
  network :: network
  time_at_lookup :: int
  time_at_write :: int

subsection \<open>Configuration\<close>

definition STATIC_CACHE :: string where "STATIC_CACHE = ''neural-static-v1.2.0''"
definition DYNAMIC_CACHE :: string where "DYNAMIC_CACHE = ''neural-dynamic-v1.2.0''"
definition MODEL_CACHE :: string where "MODEL_CACHE = ''neural-models-v1.2.0''"
definition IMAGE_CACHE :: string where "IMAGE_CACHE = ''neural-images-v1.2.0''"

definition STATIC_ASSETS :: "string list" where
  "STATIC_ASSETS =
     [''/'',
      ''/index.html'',
      ''/css/variables.css'',
      ''/css/styles.css'',
      ''/css/queries.css'',
      ''/js/script.js'',
      ''/manifest.json'',
      ''https://cdnjs.cloudflare.com/ajax/libs/three.js/r128/three.min.js'',
      ''https://cdnjs.cloudflare.com/ajax/libs/gsap/3.12.2/gsap.min.js'',
      ''https://cdn.jsdelivr.net/npm/@tensorflow/tfjs@4.10.0/dist/tf.min.js'',
      ''https://cdn.jsdelivr.net/npm/@tensorflow-models/mobilenet@2.1.1/dist/mobilenet.min.js'',
      ''https://cdn.jsdelivr.net/npm/@tensorflow-models/blazeface@0.0.7/dist/blazeface.min.js'']"

definition MODEL_URLS :: "string list" where
  "MODEL_URLS =
     [''https://cdn.jsdelivr.net/npm/@tensorflow-models/blazeface@0.0.7/dist/blazeface.min.js'',
      ''https://cdn.jsdelivr.net/npm/@tensorflow-models/mobilenet@2.1.1/dist/mobilenet.min.js'']"

datatype strategy =
    CACHE_FIRST
  | NETWORK_FIRST
  | STALE_WHILE_REVALIDATE
  | NETWORK_ONLY
  | CACHE_ONLY
  | OTHER_STRATEGY

record route_config =
  strategy :: strategy
  cacheName :: string
  maxAge :: int
  maxEntries :: nat

text \<open>
  The patterns of the route table are regular expressions used with \<^verbatim>\<open>test\<close>; each is
  either "ends with one of these" or "contains one of these".
\<close>

definition ends_with :: "string \<Rightarrow> string \<Rightarrow> bool" where
  "ends_with s suf = (length suf \<le> length s \<and> drop (length s - length suf) s = suf)"

fun contains :: "string \<Rightarrow> string \<Rightarrow> bool" where
  "contains [] sub = (sub = [])"
| "contains (c # cs) sub = (take (length sub) (c # cs) = sub \<or> contains cs sub)"

text \<open>\<^verbatim>\<open>/\.(css|js|png|jpg|jpeg|svg|woff2?|ttf|eot)$/\<close>\<close>

definition static_pattern :: "string \<Rightarrow> bool" where
  "static_pattern s =
     list_ex (ends_with s)
       [''.css'', ''.js'', ''.png'', ''.jpg'', ''.jpeg'', ''.svg'', ''.woff2'', ''.woff'',
        ''.ttf'', ''.eot'']"

text \<open>\<^verbatim>\<open>/tensorflow|blazeface|mobilenet/\<close>\<close>

definition models_pattern :: "string \<Rightarrow> bool" where
  "models_pattern s = list_ex (contains s) [''tensorflow'', ''blazeface'', ''mobilenet'']"

text \<open>\<^verbatim>\<open>/\.(jpg|jpeg|png|webp|gif)$/\<close>\<close>

definition images_pattern :: "string \<Rightarrow> bool" where
  "images_pattern s =
     list_ex (ends_with s) [''.jpg'', ''.jpeg'', ''.png'', ''.webp'', ''.gif'']"

text \<open>\<^verbatim>\<open>/\/api\//\<close>\<close>

definition api_pattern :: "string \<Rightarrow> bool" where
  "api_pattern s = contains s ''/api/''"

text \<open>\<^verbatim>\<open>/\.html$|\/$/\<close>\<close>

definition html_pattern :: "string \<Rightarrow> bool" where
  "html_pattern s = (ends_with s ''.html'' \<or> ends_with s ''/'')"

definition static_route :: route_config where
  "static_route =
     \<lparr>strategy = CACHE_FIRST, cacheName = STATIC_CACHE,
      maxAge = 7 * 24 * 60 * 60 * 1000, maxEntries = 100\<rparr>"

definition models_route :: route_config where
  "models_route =
     \<lparr>strategy = CACHE_FIRST, cacheName = MODEL_CACHE,
      maxAge = 30 * 24 * 60 * 60 * 1000, maxEntries = 20\<rparr>"

definition images_route :: route_config where
  "images_route =
     \<lparr>strategy = STALE_WHILE_REVALIDATE, cacheName = IMAGE_CACHE,
      maxAge = 7 * 24 * 60 * 60 * 1000, maxEntries = 200\<rparr>"

definition api_route :: route_config where
  "api_route =
     \<lparr>strategy = NETWORK_FIRST, cacheName = DYNAMIC_CACHE,
      maxAge = 5 * 60 * 1000, maxEntries = 50\<rparr>"

definition html_route :: route_config where
  "html_route =
     \<lparr>strategy = NETWORK_FIRST, cacheName = DYNAMIC_CACHE,
      maxAge = 24 * 60 * 60 * 1000, maxEntries = 20\<rparr>"

definition default_route :: route_config where
  "default_route =
     \<lparr>strategy = NETWORK_FIRST, cacheName = DYNAMIC_CACHE,
      maxAge = 5 * 60 * 1000, maxEntries = 50\<rparr>"

text \<open>
  \<^verbatim>\<open>ROUTE_CONFIG\<close>, in the order \<^verbatim>\<open>Object.entries\<close> walks it: name, pattern, policy.
\<close>

definition ROUTE_CONFIG :: "(string \<times> (string \<Rightarrow> bool) \<times> route_config) list" where
  "ROUTE_CONFIG =
     [(''static'', static_pattern, static_route),
      (''models'', models_pattern, models_route),
      (''images'', images_pattern, images_route),
      (''api'', api_pattern, api_route),
      (''html'', html_pattern, html_route)]"

subsection \<open>Utility functions\<close>

fun first_route :: "(string \<times> (string \<Rightarrow> bool) \<times> route_config) list \<Rightarrow> url \<Rightarrow> route_config option" where
  "first_route [] u = None"
| "first_route ((name, pattern, config) # rest) u =
     (if pattern (pathname u) \<or> pattern (href u) then Some config else first_route rest u)"

definition findMatchingRoute :: "url \<Rightarrow> route_config" where
  "findMatchingRoute u =
     (case first_route ROUTE_CONFIG u of Some config \<Rightarrow> config | None \<Rightarrow> default_route)"

text \<open>
  \<^verbatim>\<open>cacheResponse\<close>: the stored copy keeps status and body and carries the header
  \<^verbatim>\<open>sw-cache-time\<close> with the time of the write.
\<close>

definition cacheResponse :: "world \<Rightarrow> string \<Rightarrow> request \<Rightarrow> response \<Rightarrow> sw_state \<Rightarrow> sw_state" where
  "cacheResponse w name req r st =
     cache_put name (href (req_url req))
       \<lparr>status = status r, body = body r, sw_cache_time = Stamp (time_at_write w)\<rparr> st"

text \<open>
  \<^verbatim>\<open>cleanupCache\<close>: nothing when \<^verbatim>\<open>maxEntries\<close> is falsy; otherwise the keys before
  index \<^verbatim>\<open>keys.length - maxEntries\<close> are deleted when there are more than
  \<^verbatim>\<open>maxEntries\<close> of them.
\<close>

definition cleanupCache :: "string \<Rightarrow> nat \<Rightarrow> sw_state \<Rightarrow> sw_state" where
  "cleanupCache name n st =
     (if n = 0 then st
      else
        let st1 = caches_open name st;
            (keys, st2) = cache_keys name st1
        in if length keys > n
           then fold (cache_delete name) (take (length keys - n) keys) st2
           else st2)"

subsection \<open>Cache strategies\<close>

text \<open>
  The freshness test of \<^verbatim>\<open>cacheFirst\<close>:
  \<^verbatim>\<open>new Date(header || 0)\<close> is the epoch when the header is absent, and a comparison
  with NaN is false.
\<close>

definition isExpired :: "int \<Rightarrow> int \<Rightarrow> cache_time_header \<Rightarrow> bool" where
  "isExpired now max_age h =
     (case h of
        NoHeader \<Rightarrow> now - 0 > max_age
      | Stamp cacheTime \<Rightarrow> now - cacheTime > max_age
      | Unparsable \<Rightarrow> False)"

text \<open>The \<^verbatim>\<open>try\<close> block of \<^verbatim>\<open>cacheFirst\<close> with its \<^verbatim>\<open>catch\<close>.\<close>

definition cacheFirst_try ::
  "world \<Rightarrow> request \<Rightarrow> string \<Rightarrow> response option \<Rightarrow> sw_state \<Rightarrow> result \<times> sw_state" where
  "cacheFirst_try w req name cachedResponse st =
     (case fetch (network w) (href (req_url req)) st of
        (Inr networkResponse, st1) \<Rightarrow>
          (Response networkResponse,
           if ok networkResponse then cacheResponse w name req networkResponse st1 else st1)
      | (Inl error, st1) \<Rightarrow>
          (case cachedResponse of
             Some c \<Rightarrow> (Response c, st1)
           | None \<Rightarrow> (Throws error, st1)))"

definition cacheFirst :: "world \<Rightarrow> request \<Rightarrow> string \<Rightarrow> int \<Rightarrow> sw_state \<Rightarrow> result \<times> sw_state" where
  "cacheFirst w req name max_age st =
     (let st1 = caches_open name st;
          (cachedResponse, st2) = cache_match name (href (req_url req)) st1
      in case cachedResponse of
           Some c \<Rightarrow>
             if \<not> isExpired (time_at_lookup w) max_age (sw_cache_time c)
             then (Response c, st2)
             else cacheFirst_try w req name cachedResponse st2
         | None \<Rightarrow> cacheFirst_try w req name cachedResponse st2)"

definition networkFirst :: "world \<Rightarrow> request \<Rightarrow> string \<Rightarrow> int \<Rightarrow> sw_state \<Rightarrow> result \<times> sw_state" where
  "networkFirst w req name max_age st =
     (let st1 = caches_open name st
      in case fetch (network w) (href (req_url req)) st1 of
           (Inr networkResponse, st2) \<Rightarrow>
             (Response networkResponse,
              if ok networkResponse then cacheResponse w name req networkResponse st2 else st2)
         | (Inl error, st2) \<Rightarrow>
             (case cache_match name (href (req_url req)) st2 of
                (Some c, st3) \<Rightarrow> (Response c, st3)
              | (None, st3) \<Rightarrow> (Throws error, st3)))"

text \<open>
  \<^verbatim>\<open>staleWhileRevalidate\<close>: \<open>networkPromise\<close> is what the promise built from the fetch
  settles to. Its \<^verbatim>\<open>then\<close> handler caches an ok response and passes the response on; its
  \<^verbatim>\<open>catch\<close> handler logs and returns nothing, so a failed fetch settles it to
  \<^verbatim>\<open>undefined\<close>.
\<close>

definition staleWhileRevalidate :: "world \<Rightarrow> request \<Rightarrow> string \<Rightarrow> int \<Rightarrow> sw_state \<Rightarrow> result \<times> sw_state" where
  "staleWhileRevalidate w req name max_age st =
     (let st1 = caches_open name st;
          (cachedResponse, st2) = cache_match name (href (req_url req)) st1;
          (networkPromise, st3) =
            (case fetch (network w) (href (req_url req)) st2 of
               (Inr response, s) \<Rightarrow>
                 (Response response,
                  if ok response then cacheResponse w name req response s else s)
             | (Inl error, s) \<Rightarrow> (Undefined, s))
      in case cachedResponse of
           Some c \<Rightarrow> (Response c, st3)
         | None \<Rightarrow> (networkPromise, st3))"

definition cacheOnly :: "request \<Rightarrow> string \<Rightarrow> sw_state \<Rightarrow> result \<times> sw_state" where
  "cacheOnly req name st =
     (let st1 = caches_open name st
      in case cache_match name (href (req_url req)) st1 of
           (None, st2) \<Rightarrow> (Throws NoCachedResponseAvailable, st2)
         | (Some c, st2) \<Rightarrow> (Response c, st2))"

text \<open>\<^verbatim>\<open>await fetch(request)\<close> as the value of a strategy.\<close>

definition fetch_result :: "world \<Rightarrow> request \<Rightarrow> sw_state \<Rightarrow> result \<times> sw_state" where
  "fetch_result w req st =
     (case fetch (network w) (href (req_url req)) st of
        (Inr r, st1) \<Rightarrow> (Response r, st1)
      | (Inl error, st1) \<Rightarrow> (Throws error, st1))"

subsection \<open>Offline fallback\<close>

text \<open>The two synthesized bodies; their markup is abridged.\<close>

definition offline_page :: response where
  "offline_page =
     \<lparr>status = 200,
      body = ''<h1>Neural Style Memory Book</h1><p>You are currently offline. Please check your internet connection.</p>'',
      sw_cache_time = NoHeader\<rparr>"

definition placeholder_image :: response where
  "placeholder_image =
     \<lparr>status = 200,
      body = ''<svg><text>Image Unavailable Offline</text></svg>'',
      sw_cache_time = NoHeader\<rparr>"

definition handleOfflineFallback :: "request \<Rightarrow> sw_state \<Rightarrow> result \<times> sw_state" where
  "handleOfflineFallback req st =
     (if destination req = ''document'' then
        (let st1 = caches_open STATIC_CACHE st
         in case cache_match STATIC_CACHE ''/'' st1 of
              (Some cachedPage, st2) \<Rightarrow> (Response cachedPage, st2)
            | (None, st2) \<Rightarrow>
                (case cache_match STATIC_CACHE ''/index.html'' st2 of
                   (Some cachedPage, st3) \<Rightarrow> (Response cachedPage, st3)
                 | (None, st3) \<Rightarrow> (Response offline_page, st3)))
      else if destination req = ''image'' then (Response placeholder_image, st)
      else (Throws OfflineAndNoCachedResponse, st))"

subsection \<open>Request handling\<close>

text \<open>
  \<^verbatim>\<open>handleRequest\<close>: the strategy runs inside \<^verbatim>\<open>try\<close>; a thrown failure goes to the
  offline fallback; \<^verbatim>\<open>finally\<close> runs \<^verbatim>\<open>cleanupCache\<close> on the policy's cache in
  every case.
\<close>

definition run_strategy :: "world \<Rightarrow> request \<Rightarrow> route_config \<Rightarrow> sw_state \<Rightarrow> result \<times> sw_state" where
  "run_strategy w req config st =
     (case strategy config of
        CACHE_FIRST \<Rightarrow> cacheFirst w req (cacheName config) (maxAge config) st
      | NETWORK_FIRST \<Rightarrow> networkFirst w req (cacheName config) (maxAge config) st
      | STALE_WHILE_REVALIDATE \<Rightarrow> staleWhileRevalidate w req (cacheName config) (maxAge config) st
      | NETWORK_ONLY \<Rightarrow> fetch_result w req st
      | CACHE_ONLY \<Rightarrow> cacheOnly req (cacheName config) st
      | OTHER_STRATEGY \<Rightarrow> fetch_result w req st)"

definition handleRequest :: "world \<Rightarrow> request \<Rightarrow> route_config \<Rightarrow> sw_state \<Rightarrow> result \<times> sw_state" where
  "handleRequest w req config st =
     (let (r, st1) =
            (case run_strategy w req config st of
               (Throws error, s) \<Rightarrow> handleOfflineFallback req s
             | (r, s) \<Rightarrow> (r, s))
      in (r, cleanupCache (cacheName config) (maxEntries config) st1))"

text \<open>
  The \<^verbatim>\<open>fetch\<close> listener: \<open>None\<close> when the worker does not call \<^verbatim>\<open>respondWith\<close> and
  the request goes to the network untouched.
\<close>

definition onFetch :: "world \<Rightarrow> request \<Rightarrow> sw_state \<Rightarrow> (result \<times> sw_state) option" where
  "onFetch w req st =
     (if req_method req \<noteq> ''GET'' then None
      else if take 4 (protocol (req_url req)) \<noteq> ''http'' then None
      else Some (handleRequest w req (findMatchingRoute (req_url req)) st))"

subsection \<open>Install and prefetch\<close>

text \<open>
  \<^verbatim>\<open>cache.addAll(urls)\<close> of the platform: every URL is fetched; unless every fetch
  gives an ok response the call rejects and nothing is stored; otherwise the responses
  are stored as fetched.
\<close>

definition fetched_ok :: "failure + response \<Rightarrow> bool" where
  "fetched_ok x = (case x of Inr r \<Rightarrow> ok r | Inl e \<Rightarrow> False)"

definition put_fetched :: "network \<Rightarrow> string \<Rightarrow> string \<Rightarrow> sw_state \<Rightarrow> sw_state" where
  "put_fetched net name u st = (case net u of Inr r \<Rightarrow> cache_put name u r st | Inl e \<Rightarrow> st)"

definition cache_addAll :: "network \<Rightarrow> string \<Rightarrow> string list \<Rightarrow> sw_state \<Rightarrow> failure option \<times> sw_state" where
  "cache_addAll net name urls st =
     (let st1 = fold (\<lambda>u s. snd (fetch net u s)) urls st
      in if list_all (\<lambda>u. fetched_ok (net u)) urls
         then (None, fold (put_fetched net name) urls st1)
         else (Some AddAllFailed, st1))"

text \<open>
  One element of the model pre-caching of the install handler:
  \<^verbatim>\<open>fetch(url).then(response => response.ok ? modelCache.put(url, response) : null).catch(..)\<close>.
\<close>

definition precache_model :: "network \<Rightarrow> string \<Rightarrow> sw_state \<Rightarrow> sw_state" where
  "precache_model net u st =
     (case fetch net u st of
        (Inr response, st1) \<Rightarrow> if ok response then cache_put MODEL_CACHE u response st1 else st1
      | (Inl err, st1) \<Rightarrow> st1)"

datatype promise = Fulfilled | Rejected failure

record install_outcome =
  waitUntil_promise :: promise
  skipWaiting_called :: bool
  after_install :: sw_state

text \<open>
  The install handler. The promise handed to \<^verbatim>\<open>event.waitUntil\<close> is the one of the
  async function whose whole body is a \<^verbatim>\<open>try\<close> with a \<^verbatim>\<open>catch\<close> that logs.
\<close>

definition install :: "network \<Rightarrow> sw_state \<Rightarrow> install_outcome" where
  "install net st =
     (let st1 = caches_open STATIC_CACHE st
      in case cache_addAll net STATIC_CACHE STATIC_ASSETS st1 of
           (Some error, st2) \<Rightarrow>
             \<lparr>waitUntil_promise = Fulfilled, skipWaiting_called = False, after_install = st2\<rparr>
         | (None, st2) \<Rightarrow>
             (let st3 = caches_open MODEL_CACHE st2;
                  st4 = fold (precache_model net) MODEL_URLS st3
              in \<lparr>waitUntil_promise = Fulfilled, skipWaiting_called = True, after_install = st4\<rparr>))"



subsection \<open>Notions used in the statements\<close>

text \<open>One write into a named cache, as every write path of the worker performs it.\<close>

definition write_entry :: "string \<Rightarrow> string \<times> response \<Rightarrow> sw_state \<Rightarrow> sw_state" where
  "write_entry name kv st = cache_put name (fst kv) (snd kv) st"

text \<open>The platform calls made between two states.\<close>

definition new_events :: "sw_state \<Rightarrow> sw_state \<Rightarrow> event list" where
  "new_events st st' = drop (length (log st)) (log st')"




text \<open>Small concrete values for the examples.\<close>

definition resp :: "string \<Rightarrow> response" where
  "resp b = \<lparr>status = 200, body = b, sw_cache_time = NoHeader\<rparr>"

definition empty_state :: sw_state where
  "empty_state = \<lparr>caches = [], log = []\<rparr>"

definition stamped_resp :: "string \<Rightarrow> int \<Rightarrow> response" where
  "stamped_resp b t = \<lparr>status = 200, body = b, sw_cache_time = Stamp t\<rparr>"

definition two_entries :: sw_state where
  "two_entries =
     \<lparr>caches = [(''c'', [(''/a'', stamped_resp ''1'' 0), (''/b'', stamped_resp ''2'' 0)])],
      log = []\<rparr>"

definition req_of :: "string \<Rightarrow> string \<Rightarrow> request" where
  "req_of u d =
     \<lparr>req_url = \<lparr>href = u, pathname = u, protocol = ''https:''\<rparr>,
      req_method = ''GET'', destination = d\<rparr>"

definition offline :: network where
  "offline u = Inl (NetworkError ''Failed to fetch'')"

definition online :: "nat \<Rightarrow> network" where
  "online code u = Inr \<lparr>status = code, body = ''fresh'', sw_cache_time = NoHeader\<rparr>"

definition world_at :: "network \<Rightarrow> int \<Rightarrow> world" where
  "world_at net t = \<lparr>network = net, time_at_lookup = t, time_at_write = t\<rparr>"

definition script_missing :: network where
  "script_missing u =
     (if u = ''/js/script.js'' then Inl (NetworkError ''Failed to fetch'')
      else Inr (resp ''asset''))"

definition network_only_route :: route_config where
  "network_only_route =
     \<lparr>strategy = NETWORK_ONLY, cacheName = ''c'', maxAge = 0, maxEntries = 1\<rparr>"

definition static_png :: url where
  "static_png =
     \<lparr>href = ''https://cdn.example/app/logo.png'', pathname = ''/app/logo.png'',
      protocol = ''https:''\<rparr>"

definition tfjs_url :: url where
  "tfjs_url =
     \<lparr>href = ''https://cdn.jsdelivr.net/npm/@tensorflow/tfjs'', pathname = ''/npm/@tensorflow/tfjs'',
      protocol = ''https:''\<rparr>"

definition webp_url :: url where
  "webp_url =
     \<lparr>href = ''https://cdn.example/photos/cat.webp'', pathname = ''/photos/cat.webp'',
      protocol = ''https:''\<rparr>"

definition is_response :: "result \<Rightarrow> bool" where
  "is_response x = (case x of Response r \<Rightarrow> True | _ \<Rightarrow> False)"

section \<open>Properties\<close>

subsection \<open>Stores under the platform primitives\<close>

lemma store_of_set_store:
  "store_of (set_store n s cs) m = (if m = n then s else store_of cs m)"
  by (induction cs) (auto simp: store_of_def)

lemma caches_emit: "caches (emit e st) = caches st"
  by (simp add: emit_def)

lemma log_emit: "log (emit e st) = log st @ [e]"
  by (simp add: emit_def)

lemma store_of_append_empty: "store_of (cs @ [(n, [])]) m = store_of cs m"
  by (auto simp: store_of_def map_add_def split: option.splits)

lemma store_of_caches_open: "store_of (caches (caches_open n st)) m = store_of (caches st) m"
  by (simp add: caches_open_def caches_emit store_of_append_empty split: option.splits)

lemma store_of_cache_put:
  "store_of (caches (cache_put n k r st)) m =
     (if m = n then put_entry k r (store_of (caches st) n) else store_of (caches st) m)"
  by (simp add: cache_put_def caches_emit store_of_set_store)

lemma store_of_cache_delete:
  "store_of (caches (cache_delete n k st)) m =
     (if m = n then remove_key k (store_of (caches st) n) else store_of (caches st) m)"
  by (simp add: cache_delete_def caches_emit store_of_set_store)

lemma store_of_fold_delete:
  "store_of (caches (fold (cache_delete n) ks st)) m =
     (if m = n then fold remove_key ks (store_of (caches st) n) else store_of (caches st) m)"
  by (induction ks arbitrary: st) (simp_all add: store_of_cache_delete)

lemma remove_key_absent: "k \<notin> fst ` set s \<Longrightarrow> remove_key k s = s"
  by (induction s) (auto simp: remove_key_def)

lemma keys_remove_key: "map fst (remove_key k s) = filter (\<lambda>x. x \<noteq> k) (map fst s)"
  by (induction s) (auto simp: remove_key_def)

lemma keys_put_entry: "map fst (put_entry k r s) = filter (\<lambda>x. x \<noteq> k) (map fst s) @ [k]"
  by (simp add: put_entry_def keys_remove_key)



lemma distinct_put_entry: "distinct (map fst s) \<Longrightarrow> distinct (map fst (put_entry k r s))"
  by (simp add: keys_put_entry)

lemma distinct_remove_key: "distinct (map fst s) \<Longrightarrow> distinct (map fst (remove_key k s))"
  by (simp add: keys_remove_key)

lemma log_caches_open: "log (caches_open n st) = log st @ [CacheOpen n]"
  by (simp add: caches_open_def emit_def split: option.splits)

lemma log_cache_put: "log (cache_put n k r st) = log st @ [CachePut n k]"
  by (simp add: cache_put_def emit_def)

subsection \<open>Eviction\<close>

text \<open>
  Deleting the first \<open>i\<close> keys of a cache one by one leaves the cache without its first
  \<open>i\<close> entries, because no key occurs twice.
\<close>

lemma fold_remove_key_take:
  "distinct (map fst s) \<Longrightarrow> fold remove_key (take i (map fst s)) s = drop i s"
proof (induction s arbitrary: i)
  case Nil
  then show ?case by simp
next
  case (Cons kv s)
  show ?case
  proof (cases i)
    case 0
    then show ?thesis by simp
  next
    case (Suc j)
    from Cons.prems have absent: "fst kv \<notin> fst ` set s" and d: "distinct (map fst s)"
      by auto
    have "remove_key (fst kv) (kv # s) = s"
      using remove_key_absent [OF absent] by (simp add: remove_key_def)
    with Suc Cons.IH [OF d] show ?thesis by simp
  qed
qed

lemma store_of_cleanupCache:
  assumes "distinct (map fst (store_of (caches st) n))"
  shows "store_of (caches (cleanupCache n N st)) m =
     (if m = n \<and> 0 < N then drop (length (store_of (caches st) n) - N) (store_of (caches st) n)
      else store_of (caches st) m)"
  using assms
  by (simp add: cleanupCache_def cache_keys_def Let_def caches_emit store_of_fold_delete
      store_of_caches_open fold_remove_key_take)

lemma store_of_fold_write:
  "store_of (caches (fold (write_entry n) ws st)) n =
     fold (\<lambda>kv. put_entry (fst kv) (snd kv)) ws (store_of (caches st) n)"
  by (induction ws arbitrary: st) (simp_all add: write_entry_def store_of_cache_put)

lemma remdups_snoc: "remdups (xs @ [k]) = filter (\<lambda>x. x \<noteq> k) (remdups xs) @ [k]"
  by (induction xs) auto

lemma keys_fold_put:
  "distinct (map fst s) \<Longrightarrow>
   map fst (fold (\<lambda>kv. put_entry (fst kv) (snd kv)) ws s) = remdups (map fst s @ map fst ws)"
proof (induction ws rule: rev_induct)
  case Nil
  then show ?case by (simp add: distinct_remdups_id)
next
  case (snoc w ws)
  have "remdups (map fst s @ map fst (ws @ [w])) =
        filter (\<lambda>x. x \<noteq> fst w) (remdups (map fst s @ map fst ws)) @ [fst w]"
    using remdups_snoc [of "map fst s @ map fst ws" "fst w"] by simp
  with snoc show ?case
    by (simp add: keys_put_entry)
qed

lemma distinct_fold_put:
  "distinct (map fst s) \<Longrightarrow> distinct (map fst (fold (\<lambda>kv. put_entry (fst kv) (snd kv)) ws s))"
  by (simp add: keys_fold_put)

text \<open>
  C2. Take a cache whose keys are pairwise different (every cache the worker builds is
  such), write any sequence \<open>ws\<close> of entries into it and then run the eviction step with
  \<open>maxEntries = N > 0\<close>. The cache then holds at most \<open>N\<close> entries; they are what is left
  after dropping the oldest \<open>count - N\<close> entries; and their keys are the \<open>N\<close> most recently
  inserted ones, where \<open>remdups\<close> of the keys in write order is the insertion order (a key
  written again counts from its last write) and the last \<open>N\<close> of them are taken.
\<close>

theorem eviction_keeps_most_recent:
  assumes "0 < N" and "distinct (map fst (store_of (caches st) name))"
  shows "let written = fold (write_entry name) ws st;
             before = store_of (caches written) name;
             after = store_of (caches (cleanupCache name N written)) name
         in length after \<le> N
          \<and> after = drop (length before - N) before
          \<and> map fst after =
              rev (take N (rev (remdups (map fst (store_of (caches st) name) @ map fst ws))))"
proof -
  let ?s0 = "store_of (caches st) name"
  let ?written = "fold (write_entry name) ws st"
  let ?before = "store_of (caches ?written) name"
  have before: "?before = fold (\<lambda>kv. put_entry (fst kv) (snd kv)) ws ?s0"
    by (rule store_of_fold_write)
  have d: "distinct (map fst ?before)"
    unfolding before using assms(2) by (rule distinct_fold_put)
  have keys: "map fst ?before = remdups (map fst ?s0 @ map fst ws)"
    unfolding before using assms(2) by (rule keys_fold_put)
  have after: "store_of (caches (cleanupCache name N ?written)) name = drop (length ?before - N) ?before"
    using store_of_cleanupCache [OF d, of N name] assms(1) by simp
  have len: "length (drop (length ?before - N) ?before) \<le> N"
    by simp
  have "map fst (drop (length ?before - N) ?before) = rev (take N (rev (map fst ?before)))"
    by (simp add: take_rev drop_map)
  with keys have ks: "map fst (drop (length ?before - N) ?before) =
      rev (take N (rev (remdups (map fst ?s0 @ map fst ws))))"
    by simp
  show ?thesis
    unfolding Let_def after using len ks by simp
qed

theorem eviction_keeps_most_recent_witness:
  "(0::nat) < 2
   \<and> distinct (map fst (store_of (caches \<lparr>caches = [(''c'', [(''/a'', resp ''1''), (''/b'', resp ''2'')])], log = []\<rparr>) ''c''))
   \<and> store_of (caches (cleanupCache ''c'' 2
        (fold (write_entry ''c'') [(''/c'', resp ''3''), (''/a'', resp ''4'')]
           \<lparr>caches = [(''c'', [(''/a'', resp ''1''), (''/b'', resp ''2'')])], log = []\<rparr>))) ''c''
      = [(''/c'', resp ''3''), (''/a'', resp ''4'')]"
proof -
  let ?st = "\<lparr>caches = [(''c'', [(''/a'', resp ''1''), (''/b'', resp ''2'')])], log = []\<rparr>"
  have h1: "(0::nat) < 2" by simp
  have h2: "distinct (map fst (store_of (caches ?st) ''c''))"
    by (simp add: store_of_def)
  have w: "store_of (caches (fold (write_entry ''c'') [(''/c'', resp ''3''), (''/a'', resp ''4'')] ?st)) ''c''
      = [(''/b'', resp ''2''), (''/c'', resp ''3''), (''/a'', resp ''4'')]"
    by (simp add: write_entry_def cache_put_def emit_def store_of_def put_entry_def remove_key_def)
  note t = eviction_keeps_most_recent
    [OF h1 h2, of "[(''/c'', resp ''3''), (''/a'', resp ''4'')]", unfolded Let_def w]
  have "store_of (caches (cleanupCache ''c'' 2
        (fold (write_entry ''c'') [(''/c'', resp ''3''), (''/a'', resp ''4'')] ?st))) ''c''
      = [(''/c'', resp ''3''), (''/a'', resp ''4'')]"
    using t by simp
  with h1 h2 show ?thesis by blast
qed

subsection \<open>Freshness under cache-first\<close>

text \<open>
  C1 (as the code has it). A cache-first lookup finds an entry stamped \<open>t0\<close>; the
  policy's \<open>maxAge\<close> is \<open>d\<close>; the clock reads \<open>t\<close>. If \<open>t \<le> t0 + d\<close> the entry is
  returned and the only platform calls are the open and the match: no fetch. If
  \<open>t0 + d < t\<close> the network is fetched. The entry counts as expired exactly when its
  age \<open>t - t0\<close> exceeds \<open>d\<close>, so an entry of age exactly \<open>d\<close> is still fresh.
\<close>

theorem cacheFirst_freshness:
  assumes "map_of (store_of (caches st) name) (href (req_url req)) = Some c"
    and "sw_cache_time c = Stamp t0"
  shows "(time_at_lookup w \<le> t0 + d \<longrightarrow>
            fst (cacheFirst w req name d st) = Response c
          \<and> new_events st (snd (cacheFirst w req name d st)) =
              [CacheOpen name, CacheMatch name (href (req_url req))])
       \<and> (t0 + d < time_at_lookup w \<longrightarrow>
            Fetch (href (req_url req)) \<in> set (new_events st (snd (cacheFirst w req name d st))))
       \<and> (isExpired (time_at_lookup w) d (sw_cache_time c) \<longleftrightarrow> d < time_at_lookup w - t0)"
  using assms
  by (auto simp: cacheFirst_def cacheFirst_try_def Let_def cache_match_def fetch_def store_of_caches_open
      isExpired_def caches_emit log_emit log_caches_open log_cache_put cacheResponse_def
      new_events_def split: sum.splits)

lemma two_entries_lookup_a:
  "map_of (store_of (caches two_entries) ''c'') (href (req_url (req_of ''/a'' d))) =
     Some (stamped_resp ''1'' 0)"
  by (simp add: two_entries_def store_of_def req_of_def)

theorem cacheFirst_freshness_witness:
  "fst (cacheFirst (world_at (online 200) 5) (req_of ''/a'' ''script'') ''c'' 5 two_entries)
     = Response (stamped_resp ''1'' 0)
   \<and> new_events two_entries
        (snd (cacheFirst (world_at (online 200) 5) (req_of ''/a'' ''script'') ''c'' 5 two_entries))
     = [CacheOpen ''c'', CacheMatch ''c'' ''/a'']
   \<and> Fetch ''/a'' \<in> set (new_events two_entries
        (snd (cacheFirst (world_at (online 200) 6) (req_of ''/a'' ''script'') ''c'' 5 two_entries)))"
proof -
  have h2: "sw_cache_time (stamped_resp ''1'' 0) = Stamp 0"
    by (simp add: stamped_resp_def)
  have k: "href (req_url (req_of ''/a'' ''script'')) = ''/a''"
    by (simp add: req_of_def)
  have t: "time_at_lookup (world_at (online 200) 5) = 5" "time_at_lookup (world_at (online 200) 6) = 6"
    by (simp_all add: world_at_def)
  show ?thesis
    using cacheFirst_freshness
        [OF two_entries_lookup_a [of "''script''"] h2, of "world_at (online 200) 5" 5]
      cacheFirst_freshness
        [OF two_entries_lookup_a [of "''script''"] h2, of "world_at (online 200) 6" 5]
    by (simp add: k t)
qed

text \<open>
  The claim as written puts the boundary on the other side: at \<open>t = t0 + d\<close> (here
  \<open>t0 = 0\<close>, \<open>d = 5\<close>, \<open>t = 5\<close>) it expects a fetch; the code returns the cached entry
  and does not fetch, although the network is reachable.
\<close>

theorem cacheFirst_boundary_counterexample:
  "sw_cache_time (stamped_resp ''1'' 0) = Stamp 0
   \<and> (0::int) + 5 \<le> 5
   \<and> fst (cacheFirst (world_at (online 200) 5) (req_of ''/a'' ''script'') ''c'' 5 two_entries)
       = Response (stamped_resp ''1'' 0)
   \<and> Fetch ''/a'' \<notin> set (log (snd
        (cacheFirst (world_at (online 200) 5) (req_of ''/a'' ''script'') ''c'' 5 two_entries)))"
  by (simp add: cacheFirst_def cacheFirst_try_def Let_def cache_match_def fetch_def caches_open_def emit_def
      store_of_def isExpired_def world_at_def req_of_def stamped_resp_def two_entries_def)

subsection \<open>Serving the cache when the network fails\<close>

text \<open>
  C4. The fetch of the request fails with \<open>e\<close>. Then \<^verbatim>\<open>cacheFirst\<close> and
  \<^verbatim>\<open>networkFirst\<close> both return the entry stored under the request's key when there is
  one, whatever its stamp, the clock and \<open>maxAge\<close>; and both throw \<open>e\<close> when there is
  none. So each throws exactly when the store has no entry for the key.
\<close>

theorem serve_stale_on_error:
  assumes "network w (href (req_url req)) = Inl e"
  shows "fst (cacheFirst w req name d st) =
           (case map_of (store_of (caches st) name) (href (req_url req)) of
              Some c \<Rightarrow> Response c | None \<Rightarrow> Throws e)
       \<and> fst (networkFirst w req name d st) =
           (case map_of (store_of (caches st) name) (href (req_url req)) of
              Some c \<Rightarrow> Response c | None \<Rightarrow> Throws e)
       \<and> ((\<exists>x. fst (cacheFirst w req name d st) = Throws x) \<longleftrightarrow>
            map_of (store_of (caches st) name) (href (req_url req)) = None)
       \<and> ((\<exists>x. fst (networkFirst w req name d st) = Throws x) \<longleftrightarrow>
            map_of (store_of (caches st) name) (href (req_url req)) = None)"
  using assms
  by (auto simp: cacheFirst_def cacheFirst_try_def networkFirst_def Let_def cache_match_def fetch_def
      store_of_caches_open caches_emit split: option.splits)

theorem serve_stale_on_error_witness:
  "fst (cacheFirst (world_at offline 1000) (req_of ''/a'' ''script'') ''c'' 5 two_entries)
     = Response (stamped_resp ''1'' 0)
   \<and> fst (networkFirst (world_at offline 1000) (req_of ''/a'' ''script'') ''c'' 5 two_entries)
     = Response (stamped_resp ''1'' 0)
   \<and> fst (cacheFirst (world_at offline 1000) (req_of ''/a'' ''script'') ''c'' 5 empty_state)
     = Throws (NetworkError ''Failed to fetch'')
   \<and> fst (networkFirst (world_at offline 1000) (req_of ''/a'' ''script'') ''c'' 5 empty_state)
     = Throws (NetworkError ''Failed to fetch'')"
proof -
  have h: "network (world_at offline 1000) (href (req_url (req_of ''/a'' ''script'')))
      = Inl (NetworkError ''Failed to fetch'')"
    by (simp add: world_at_def offline_def)
  have e: "map_of (store_of (caches empty_state) ''c'') (href (req_url (req_of ''/a'' ''script''))) = None"
    by (simp add: empty_state_def store_of_def)
  show ?thesis
    using serve_stale_on_error [OF h, of "''c''" 5 two_entries]
      serve_stale_on_error [OF h, of "''c''" 5 empty_state]
    by (simp add: two_entries_lookup_a [of "''script''"] e)
qed

subsection \<open>Stale-while-revalidate without a cached entry\<close>

text \<open>
  C5. The image store is empty and the network is down. \<^verbatim>\<open>staleWhileRevalidate\<close>
  then settles to \<^verbatim>\<open>undefined\<close>: the \<^verbatim>\<open>catch\<close> handler attached to the fetch logs the
  failure and returns nothing, and that promise is what the function awaits. Nothing
  is thrown, so \<^verbatim>\<open>handleRequest\<close> does not reach the offline fallback and answers
  \<^verbatim>\<open>undefined\<close> as well.
\<close>

theorem swr_miss_failure_undefined:
  "fst (staleWhileRevalidate (world_at offline 0) (req_of ''/photos/cat.webp'' ''image'') IMAGE_CACHE
          (maxAge images_route) empty_state) = Undefined
   \<and> fst (handleRequest (world_at offline 0) (req_of ''/photos/cat.webp'' ''image'') images_route
          empty_state) = Undefined"
  by (simp add: staleWhileRevalidate_def handleRequest_def run_strategy_def images_route_def
      Let_def cache_match_def fetch_def caches_open_def emit_def store_of_def world_at_def
      offline_def req_of_def empty_state_def)

subsection \<open>Offline fallback\<close>

text \<open>
  C7 (as the code has it). \<^verbatim>\<open>handleOfflineFallback\<close> yields a response when the
  request's destination is \<^verbatim>\<open>document\<close> or \<^verbatim>\<open>image\<close>, and throws "Offline and no cached
  response available" for every other destination.
\<close>

theorem fallback_by_destination:
  "(destination req = ''document'' \<or> destination req = ''image'' \<longrightarrow>
      is_response (fst (handleOfflineFallback req st)))
   \<and> (destination req \<noteq> ''document'' \<and> destination req \<noteq> ''image'' \<longrightarrow>
      fst (handleOfflineFallback req st) = Throws OfflineAndNoCachedResponse)"
  by (auto simp: handleOfflineFallback_def is_response_def Let_def cache_match_def
      split: option.splits)

theorem fallback_by_destination_witness:
  "is_response (fst (handleOfflineFallback (req_of ''/index.html'' ''document'') empty_state))
   \<and> is_response (fst (handleOfflineFallback (req_of ''/photos/cat.webp'' ''image'') empty_state))
   \<and> fst (handleOfflineFallback (req_of ''/api/items'' '''') empty_state)
       = Throws OfflineAndNoCachedResponse"
  using fallback_by_destination [of "req_of ''/index.html'' ''document''" empty_state]
    fallback_by_destination [of "req_of ''/photos/cat.webp'' ''image''" empty_state]
    fallback_by_destination [of "req_of ''/api/items'' ''''" empty_state]
  by (simp add: req_of_def)

text \<open>
  The claim as written fails for a script request: the fallback throws.
\<close>

theorem fallback_throws_counterexample:
  "fst (handleOfflineFallback (req_of ''/js/script.js'' ''script'') empty_state)
     = Throws OfflineAndNoCachedResponse"
  by (simp add: handleOfflineFallback_def req_of_def)

subsection \<open>Route priority\<close>

lemma static_png_matches:
  "static_pattern (pathname static_png)" "images_pattern (pathname static_png)"
  by (simp_all add: static_pattern_def images_pattern_def static_png_def ends_with_def)

text \<open>
  C9. \<^verbatim>\<open>findMatchingRoute\<close> tries the static pattern first, then the model pattern,
  then the image pattern, each against the pathname and the full URL: a URL the static
  pattern matches gets the static policy; one it does not match but the model pattern
  does gets the model policy; the image policy is left for URLs that neither of the two
  matches. The URL \<^verbatim>\<open>https://cdn.example/app/logo.png\<close> matches the static pattern and
  the image pattern, and gets the static policy: cache-first, on the static cache.
\<close>

theorem route_priority:
  "(static_pattern (pathname u) \<or> static_pattern (href u) \<longrightarrow>
      findMatchingRoute u = static_route)
   \<and> (\<not> (static_pattern (pathname u) \<or> static_pattern (href u))
        \<and> (models_pattern (pathname u) \<or> models_pattern (href u)) \<longrightarrow>
      findMatchingRoute u = models_route)
   \<and> (\<not> (static_pattern (pathname u) \<or> static_pattern (href u))
        \<and> \<not> (models_pattern (pathname u) \<or> models_pattern (href u))
        \<and> (images_pattern (pathname u) \<or> images_pattern (href u)) \<longrightarrow>
      findMatchingRoute u = images_route)
   \<and> static_pattern (pathname static_png) \<and> images_pattern (pathname static_png)
   \<and> findMatchingRoute static_png = static_route
   \<and> strategy (findMatchingRoute static_png) = CACHE_FIRST
   \<and> cacheName (findMatchingRoute static_png) = STATIC_CACHE
   \<and> strategy (findMatchingRoute static_png) \<noteq> strategy images_route"
proof -
  have st: "static_pattern (pathname v) \<or> static_pattern (href v) \<Longrightarrow>
      findMatchingRoute v = static_route" for v
    by (simp add: findMatchingRoute_def ROUTE_CONFIG_def)
  have m: "\<not> (static_pattern (pathname u) \<or> static_pattern (href u)) \<Longrightarrow>
      models_pattern (pathname u) \<or> models_pattern (href u) \<Longrightarrow>
      findMatchingRoute u = models_route"
    by (simp add: findMatchingRoute_def ROUTE_CONFIG_def)
  have im: "\<not> (static_pattern (pathname u) \<or> static_pattern (href u)) \<Longrightarrow>
      \<not> (models_pattern (pathname u) \<or> models_pattern (href u)) \<Longrightarrow>
      images_pattern (pathname u) \<or> images_pattern (href u) \<Longrightarrow>
      findMatchingRoute u = images_route"
    by (simp add: findMatchingRoute_def ROUTE_CONFIG_def)
  have f: "findMatchingRoute static_png = static_route"
    using st static_png_matches(1) by blast
  have s: "strategy static_route = CACHE_FIRST" "cacheName static_route = STATIC_CACHE"
    "strategy images_route = STALE_WHILE_REVALIDATE"
    by (simp_all add: static_route_def images_route_def)
  show ?thesis
    using static_png_matches st [of u] m im f s by auto
qed

theorem route_priority_witness:
  "findMatchingRoute static_png = static_route
   \<and> findMatchingRoute tfjs_url = models_route
   \<and> findMatchingRoute webp_url = images_route"
proof -
  have a: "\<not> (static_pattern (pathname tfjs_url) \<or> static_pattern (href tfjs_url))"
    by (simp add: static_pattern_def tfjs_url_def ends_with_def)
  have b: "models_pattern (pathname tfjs_url) \<or> models_pattern (href tfjs_url)"
    by (simp add: models_pattern_def tfjs_url_def)
  have c: "\<not> (static_pattern (pathname webp_url) \<or> static_pattern (href webp_url))"
    by (simp add: static_pattern_def webp_url_def ends_with_def)
  have d: "\<not> (models_pattern (pathname webp_url) \<or> models_pattern (href webp_url))"
    by (simp add: models_pattern_def webp_url_def)
  have e: "images_pattern (pathname webp_url) \<or> images_pattern (href webp_url)"
    by (simp add: images_pattern_def webp_url_def ends_with_def)
  show ?thesis
    using route_priority [of static_png] route_priority [of tfjs_url] route_priority [of webp_url]
      a b c d e
    by blast
qed

subsection \<open>Responses that are not ok\<close>

text \<open>
  C10 (as the code has it). The fetch of the request yields a response \<open>r\<close> that is not
  ok. Then none of \<^verbatim>\<open>cacheFirst\<close>, \<^verbatim>\<open>networkFirst\<close>, \<^verbatim>\<open>staleWhileRevalidate\<close> writes:
  every cache has the contents it had. \<^verbatim>\<open>networkFirst\<close> returns \<open>r\<close>; \<^verbatim>\<open>cacheFirst\<close>
  returns \<open>r\<close> unless it holds an entry that is not expired (then it does not fetch);
  \<^verbatim>\<open>staleWhileRevalidate\<close> returns \<open>r\<close> only when it holds no entry for the key, and the
  cached entry otherwise.
\<close>

theorem not_ok_not_cached:
  assumes "network w (href (req_url req)) = Inr r" and "\<not> ok r"
  shows "store_of (caches (snd (cacheFirst w req name d st))) m = store_of (caches st) m
       \<and> store_of (caches (snd (networkFirst w req name d st))) m = store_of (caches st) m
       \<and> store_of (caches (snd (staleWhileRevalidate w req name d st))) m = store_of (caches st) m
       \<and> fst (networkFirst w req name d st) = Response r
       \<and> fst (cacheFirst w req name d st) =
           (case map_of (store_of (caches st) name) (href (req_url req)) of
              Some c \<Rightarrow>
                if isExpired (time_at_lookup w) d (sw_cache_time c) then Response r else Response c
            | None \<Rightarrow> Response r)
       \<and> fst (staleWhileRevalidate w req name d st) =
           (case map_of (store_of (caches st) name) (href (req_url req)) of
              Some c \<Rightarrow> Response c
            | None \<Rightarrow> Response r)"
  using assms
  by (auto simp: cacheFirst_def cacheFirst_try_def networkFirst_def staleWhileRevalidate_def Let_def cache_match_def
      fetch_def store_of_caches_open caches_emit split: option.splits)

lemma online_404:
  "network (world_at (online 404) t) (href (req_url (req_of u d))) =
     Inr \<lparr>status = 404, body = ''fresh'', sw_cache_time = NoHeader\<rparr>"
  "\<not> ok \<lparr>status = 404, body = ''fresh'', sw_cache_time = NoHeader\<rparr>"
  by (simp_all add: world_at_def online_def ok_def)

theorem not_ok_not_cached_witness:
  "store_of (caches (snd (networkFirst (world_at (online 404) 9) (req_of ''/a'' ''script'') ''c'' 5
       two_entries))) ''c''
     = [(''/a'', stamped_resp ''1'' 0), (''/b'', stamped_resp ''2'' 0)]
   \<and> fst (networkFirst (world_at (online 404) 9) (req_of ''/a'' ''script'') ''c'' 5 two_entries)
     = Response \<lparr>status = 404, body = ''fresh'', sw_cache_time = NoHeader\<rparr>
   \<and> fst (cacheFirst (world_at (online 404) 9) (req_of ''/a'' ''script'') ''c'' 5 two_entries)
     = Response \<lparr>status = 404, body = ''fresh'', sw_cache_time = NoHeader\<rparr>
   \<and> fst (staleWhileRevalidate (world_at (online 404) 9) (req_of ''/a'' ''script'') ''c'' 5 two_entries)
     = Response (stamped_resp ''1'' 0)"
proof -
  have s: "store_of (caches two_entries) ''c''
      = [(''/a'', stamped_resp ''1'' 0), (''/b'', stamped_resp ''2'' 0)]"
    by (simp add: two_entries_def store_of_def)
  have x: "isExpired (time_at_lookup (world_at (online 404) 9)) 5 (sw_cache_time (stamped_resp ''1'' 0))"
    by (simp add: isExpired_def world_at_def stamped_resp_def)
  note t = not_ok_not_cached
    [OF online_404, of 9 "''/a''" "''script''" "''c''" 5 two_entries "''c''"]
  have "store_of (caches (snd (networkFirst (world_at (online 404) 9) (req_of ''/a'' ''script'') ''c'' 5
       two_entries))) ''c'' = store_of (caches two_entries) ''c''"
    using t by blast
  moreover have "fst (networkFirst (world_at (online 404) 9) (req_of ''/a'' ''script'') ''c'' 5 two_entries)
     = Response \<lparr>status = 404, body = ''fresh'', sw_cache_time = NoHeader\<rparr>
   \<and> fst (cacheFirst (world_at (online 404) 9) (req_of ''/a'' ''script'') ''c'' 5 two_entries)
     = Response \<lparr>status = 404, body = ''fresh'', sw_cache_time = NoHeader\<rparr>
   \<and> fst (staleWhileRevalidate (world_at (online 404) 9) (req_of ''/a'' ''script'') ''c'' 5 two_entries)
     = Response (stamped_resp ''1'' 0)"
    using t by (simp add: x two_entries_lookup_a [of "''script''"])
  ultimately show ?thesis
    by (simp add: s)
qed

text \<open>
  The claim as written says the response that is not ok is returned under each of the
  three strategies. Under stale-while-revalidate with an entry in the cache it is not:
  the caller gets the cached entry and the 404 is dropped.
\<close>

theorem swr_returns_cache_counterexample:
  "network (world_at (online 404) 0) (href (req_url (req_of ''/a'' ''image'')))
     = Inr \<lparr>status = 404, body = ''fresh'', sw_cache_time = NoHeader\<rparr>
   \<and> \<not> ok \<lparr>status = 404, body = ''fresh'', sw_cache_time = NoHeader\<rparr>
   \<and> fst (staleWhileRevalidate (world_at (online 404) 0) (req_of ''/a'' ''image'') ''c'' 0 two_entries)
       = Response (stamped_resp ''1'' 0)
   \<and> fst (staleWhileRevalidate (world_at (online 404) 0) (req_of ''/a'' ''image'') ''c'' 0 two_entries)
       \<noteq> Response \<lparr>status = 404, body = ''fresh'', sw_cache_time = NoHeader\<rparr>"
  by (simp add: staleWhileRevalidate_def Let_def cache_match_def fetch_def caches_open_def emit_def
      store_of_def world_at_def online_def req_of_def two_entries_def stamped_resp_def ok_def)

subsection \<open>Store contents after a strategy\<close>






lemma store_of_fetch_result: "store_of (caches (snd (fetch_result w req st))) m = store_of (caches st) m"
  by (simp add: fetch_result_def fetch_def caches_emit split: sum.splits)

lemma store_of_handleOfflineFallback:
  "store_of (caches (snd (handleOfflineFallback req st))) m = store_of (caches st) m"
  by (simp add: handleOfflineFallback_def Let_def cache_match_def store_of_caches_open caches_emit
      split: option.splits)


lemma set_remove_key: "set (remove_key k s) \<subseteq> set s"
  by (simp add: remove_key_def)

lemma set_fold_remove_key: "set (fold remove_key ks s) \<subseteq> set s"
proof (induction ks arbitrary: s)
  case Nil
  show ?case by simp
next
  case (Cons k ks)
  have "set (fold remove_key ks (remove_key k s)) \<subseteq> set (remove_key k s)"
    by (rule Cons.IH)
  also have "\<dots> \<subseteq> set s"
    by (rule set_remove_key)
  finally show ?case by simp
qed

lemma store_of_cleanupCache_any:
  "store_of (caches (cleanupCache n N st)) m =
     (if m = n \<and> 0 < N \<and> N < length (store_of (caches st) n)
      then fold remove_key
             (take (length (store_of (caches st) n) - N) (map fst (store_of (caches st) n)))
             (store_of (caches st) n)
      else store_of (caches st) m)"
  by (simp add: cleanupCache_def cache_keys_def Let_def caches_emit store_of_fold_delete
      store_of_caches_open)

lemma set_store_of_cleanupCache:
  "set (store_of (caches (cleanupCache n N st)) m) \<subseteq> set (store_of (caches st) m)"
  by (simp add: store_of_cleanupCache_any set_fold_remove_key)

lemma store_of_before_cleanup:
  "store_of (caches (snd (case run_strategy w req config st of
       (Throws error, s) \<Rightarrow> handleOfflineFallback req s | (r, s) \<Rightarrow> (r, s)))) m =
   store_of (caches (snd (run_strategy w req config st))) m"
proof (cases "run_strategy w req config st")
  case (Pair x s)
  then show ?thesis
    by (cases x) (simp_all add: store_of_handleOfflineFallback)
qed

lemma snd_handleRequest:
  "snd (handleRequest w req config st) =
     cleanupCache (cacheName config) (maxEntries config)
       (snd (case run_strategy w req config st of
          (Throws error, s) \<Rightarrow> handleOfflineFallback req s | (r, s) \<Rightarrow> (r, s)))"
  by (simp add: handleRequest_def split: prod.splits)


subsection \<open>Network-only requests\<close>

lemma store_of_handleRequest_network_only:
  assumes "strategy config = NETWORK_ONLY"
  shows "store_of (caches (snd (handleRequest w req config st))) m =
           store_of (caches (cleanupCache (cacheName config) (maxEntries config) st)) m"
proof -
  have r: "store_of (caches (snd (run_strategy w req config st))) k = store_of (caches st) k" for k
    using assms by (simp add: run_strategy_def store_of_fetch_result)
  let ?s1 = "snd (case run_strategy w req config st of
       (Throws error, s) \<Rightarrow> handleOfflineFallback req s | (r, s) \<Rightarrow> (r, s))"
  have b: "store_of (caches ?s1) k = store_of (caches st) k" for k
    by (simp add: store_of_before_cleanup r)
  show ?thesis
    unfolding snd_handleRequest
    by (simp add: store_of_cleanupCache_any b)
qed

text \<open>
  C8 (as the code has it). Under \<^verbatim>\<open>NETWORK_ONLY\<close> the strategy itself does nothing but
  the fetch. When the fetch succeeds, \<^verbatim>\<open>handleRequest\<close> returns its response as it is;
  when it fails, the failure goes to the offline fallback and the fallback's outcome is
  returned. In both cases the eviction step then runs on the policy's cache, as after
  every request. With \<open>maxEntries = 0\<close> and a successful fetch the cache storage is the
  same and the only platform call is the fetch. Whatever the fetch gives: no cache gains
  an entry; every cache keeps its contents when \<open>maxEntries\<close> is 0 or the policy's cache
  holds at most \<open>maxEntries\<close> entries; and otherwise (keys pairwise different, as in
  every cache the worker builds) the policy's cache loses exactly its oldest
  \<open>count - maxEntries\<close> entries while every other cache keeps its contents.
\<close>

theorem network_only_behaviour:
  assumes "strategy config = NETWORK_ONLY"
  shows "snd (run_strategy w req config st) = emit (Fetch (href (req_url req))) st
       \<and> (network w (href (req_url req)) = Inr r \<longrightarrow>
            handleRequest w req config st =
              (Response r,
               cleanupCache (cacheName config) (maxEntries config)
                 (emit (Fetch (href (req_url req))) st)))
       \<and> (network w (href (req_url req)) = Inl e \<longrightarrow>
            handleRequest w req config st =
              (fst (handleOfflineFallback req (emit (Fetch (href (req_url req))) st)),
               cleanupCache (cacheName config) (maxEntries config)
                 (snd (handleOfflineFallback req (emit (Fetch (href (req_url req))) st)))))
       \<and> (network w (href (req_url req)) = Inr r \<and> maxEntries config = 0 \<longrightarrow>
            caches (snd (handleRequest w req config st)) = caches st
          \<and> new_events st (snd (handleRequest w req config st)) = [Fetch (href (req_url req))])
       \<and> set (store_of (caches (snd (handleRequest w req config st))) m)
            \<subseteq> set (store_of (caches st) m)
       \<and> (maxEntries config = 0
            \<or> length (store_of (caches st) (cacheName config)) \<le> maxEntries config \<longrightarrow>
            store_of (caches (snd (handleRequest w req config st))) m = store_of (caches st) m)
       \<and> (distinct (map fst (store_of (caches st) (cacheName config)))
            \<and> 0 < maxEntries config
            \<and> maxEntries config < length (store_of (caches st) (cacheName config)) \<longrightarrow>
            store_of (caches (snd (handleRequest w req config st))) (cacheName config) =
              drop (length (store_of (caches st) (cacheName config)) - maxEntries config)
                (store_of (caches st) (cacheName config))
          \<and> (m \<noteq> cacheName config \<longrightarrow>
               store_of (caches (snd (handleRequest w req config st))) m = store_of (caches st) m))"
proof -
  have "snd (run_strategy w req config st) = emit (Fetch (href (req_url req))) st
       \<and> (network w (href (req_url req)) = Inr r \<longrightarrow>
            handleRequest w req config st =
              (Response r,
               cleanupCache (cacheName config) (maxEntries config)
                 (emit (Fetch (href (req_url req))) st)))
       \<and> (network w (href (req_url req)) = Inl e \<longrightarrow>
            handleRequest w req config st =
              (fst (handleOfflineFallback req (emit (Fetch (href (req_url req))) st)),
               cleanupCache (cacheName config) (maxEntries config)
                 (snd (handleOfflineFallback req (emit (Fetch (href (req_url req))) st)))))
       \<and> (network w (href (req_url req)) = Inr r \<and> maxEntries config = 0 \<longrightarrow>
            caches (snd (handleRequest w req config st)) = caches st
          \<and> new_events st (snd (handleRequest w req config st)) = [Fetch (href (req_url req))])"
    using assms
    by (auto simp: handleRequest_def run_strategy_def fetch_result_def fetch_def cleanupCache_def
        caches_emit log_emit new_events_def split: sum.splits prod.splits)
  moreover have "set (store_of (caches (snd (handleRequest w req config st))) m)
            \<subseteq> set (store_of (caches st) m)"
    by (simp add: store_of_handleRequest_network_only [OF assms] set_store_of_cleanupCache)
  moreover have "maxEntries config = 0
            \<or> length (store_of (caches st) (cacheName config)) \<le> maxEntries config \<longrightarrow>
            store_of (caches (snd (handleRequest w req config st))) m = store_of (caches st) m"
    by (auto simp: store_of_handleRequest_network_only [OF assms] store_of_cleanupCache_any)
  moreover have "distinct (map fst (store_of (caches st) (cacheName config)))
            \<and> 0 < maxEntries config
            \<and> maxEntries config < length (store_of (caches st) (cacheName config)) \<longrightarrow>
            store_of (caches (snd (handleRequest w req config st))) (cacheName config) =
              drop (length (store_of (caches st) (cacheName config)) - maxEntries config)
                (store_of (caches st) (cacheName config))
          \<and> (m \<noteq> cacheName config \<longrightarrow>
               store_of (caches (snd (handleRequest w req config st))) m = store_of (caches st) m)"
    by (simp add: store_of_handleRequest_network_only [OF assms] store_of_cleanupCache)
  ultimately show ?thesis
    by blast
qed

theorem network_only_behaviour_witness:
  "handleRequest (world_at (online 200) 0) (req_of ''/x'' ''script'')
      (network_only_route\<lparr>maxEntries := 0\<rparr>) two_entries
     = (Response \<lparr>status = 200, body = ''fresh'', sw_cache_time = NoHeader\<rparr>,
        emit (Fetch ''/x'') two_entries)
   \<and> fst (handleRequest (world_at offline 0) (req_of ''/x'' ''script'')
      (network_only_route\<lparr>maxEntries := 0\<rparr>) two_entries)
     = Throws OfflineAndNoCachedResponse
   \<and> store_of (caches (snd (handleRequest (world_at offline 0) (req_of ''/x'' ''document'')
      (network_only_route\<lparr>maxEntries := 0\<rparr>) two_entries))) ''c''
     = [(''/a'', stamped_resp ''1'' 0), (''/b'', stamped_resp ''2'' 0)]
   \<and> store_of (caches (snd (handleRequest (world_at offline 0) (req_of ''/x'' ''document'')
      network_only_route two_entries))) ''c''
     = [(''/b'', stamped_resp ''2'' 0)]
   \<and> store_of (caches (snd (handleRequest (world_at offline 0) (req_of ''/x'' ''document'')
      network_only_route two_entries))) STATIC_CACHE
     = []"
proof -
  have h: "strategy (network_only_route\<lparr>maxEntries := 0\<rparr>) = NETWORK_ONLY"
    "strategy network_only_route = NETWORK_ONLY"
    by (simp_all add: network_only_route_def)
  have n1: "network (world_at (online 200) 0) ''/x''
      = Inr \<lparr>status = 200, body = ''fresh'', sw_cache_time = NoHeader\<rparr>"
    by (simp add: world_at_def online_def)
  have n2: "network (world_at offline 0) ''/x''
      = Inl (NetworkError ''Failed to fetch'')"
    by (simp add: world_at_def offline_def)
  have k: "href (req_url (req_of ''/x'' ''script'')) = ''/x''"
    by (simp add: req_of_def)
  have c: "cleanupCache n 0 s = s" for n s
    by (simp add: cleanupCache_def)
  have f: "fst (handleOfflineFallback (req_of ''/x'' ''script'') s) = Throws OfflineAndNoCachedResponse" for s
    by (simp add: handleOfflineFallback_def req_of_def)
  have s: "store_of (caches two_entries) ''c''
      = [(''/a'', stamped_resp ''1'' 0), (''/b'', stamped_resp ''2'' 0)]"
    by (simp add: two_entries_def store_of_def)
  have cn: "cacheName network_only_route = ''c''" "maxEntries network_only_route = 1"
    by (simp_all add: network_only_route_def)
  have a: "handleRequest (world_at (online 200) 0) (req_of ''/x'' ''script'')
      (network_only_route\<lparr>maxEntries := 0\<rparr>) two_entries
     = (Response \<lparr>status = 200, body = ''fresh'', sw_cache_time = NoHeader\<rparr>,
        emit (Fetch ''/x'') two_entries)
   \<and> fst (handleRequest (world_at offline 0) (req_of ''/x'' ''script'')
      (network_only_route\<lparr>maxEntries := 0\<rparr>) two_entries)
     = Throws OfflineAndNoCachedResponse"
    using network_only_behaviour [OF h(1), of "world_at (online 200) 0" "req_of ''/x'' ''script''"
        two_entries "\<lparr>status = 200, body = ''fresh'', sw_cache_time = NoHeader\<rparr>"]
      network_only_behaviour [OF h(1), of "world_at offline 0" "req_of ''/x'' ''script''"
        two_entries _ "NetworkError ''Failed to fetch''"]
    by (simp add: n1 n2 k c f)
  have b: "store_of (caches (snd (handleRequest (world_at offline 0) (req_of ''/x'' ''document'')
      (network_only_route\<lparr>maxEntries := 0\<rparr>) two_entries))) ''c''
     = store_of (caches two_entries) ''c''"
    using network_only_behaviour [OF h(1), of "world_at offline 0" "req_of ''/x'' ''document''"
        two_entries _ _ "''c''"]
    by simp
  have d: "store_of (caches (snd (handleRequest (world_at offline 0) (req_of ''/x'' ''document'')
      network_only_route two_entries))) ''c''
     = drop (length (store_of (caches two_entries) ''c'') - 1) (store_of (caches two_entries) ''c'')"
    using network_only_behaviour [OF h(2), of "world_at offline 0" "req_of ''/x'' ''document''"
        two_entries _ _ "''c''"]
    by (simp add: cn s stamped_resp_def)
  have o: "store_of (caches two_entries) STATIC_CACHE = []"
    by (simp add: two_entries_def store_of_def STATIC_CACHE_def)
  have e: "store_of (caches (snd (handleRequest (world_at offline 0) (req_of ''/x'' ''document'')
      network_only_route two_entries))) STATIC_CACHE
     = store_of (caches two_entries) STATIC_CACHE"
    using network_only_behaviour [OF h(2), of "world_at offline 0" "req_of ''/x'' ''document''"
        two_entries _ _ STATIC_CACHE]
    by (simp add: cn s stamped_resp_def STATIC_CACHE_def)
  show ?thesis
    using a b d e by (simp add: s o)
qed

text \<open>
  The claim as written says that no store is touched. With a policy whose
  \<open>maxEntries\<close> is 1 and a cache holding two entries, a successful network-only request
  opens the cache, lists its keys and deletes the oldest entry. It also says that a
  failure is returned as it is: for an image request whose fetch fails, the caller gets
  the placeholder image.
\<close>

theorem network_only_evicts_counterexample:
  "strategy network_only_route = NETWORK_ONLY
   \<and> store_of (caches two_entries) ''c''
       = [(''/a'', stamped_resp ''1'' 0), (''/b'', stamped_resp ''2'' 0)]
   \<and> store_of (caches (snd (handleRequest (world_at (online 200) 0) (req_of ''/x'' ''script'')
         network_only_route two_entries))) ''c'' = [(''/b'', stamped_resp ''2'' 0)]
   \<and> new_events two_entries (snd (handleRequest (world_at (online 200) 0) (req_of ''/x'' ''script'')
         network_only_route two_entries))
       = [Fetch ''/x'', CacheOpen ''c'', CacheKeys ''c'', CacheDelete ''c'' ''/a'']
   \<and> network (world_at offline 0) (href (req_url (req_of ''/x'' ''image'')))
       = Inl (NetworkError ''Failed to fetch'')
   \<and> fst (handleRequest (world_at offline 0) (req_of ''/x'' ''image'') network_only_route
         two_entries) = Response placeholder_image"
  by (simp add: handleRequest_def run_strategy_def fetch_result_def network_only_route_def
      cleanupCache_def cache_keys_def cache_delete_def remove_key_def handleOfflineFallback_def
      Let_def fetch_def caches_open_def emit_def new_events_def offline_def
      store_of_def world_at_def online_def req_of_def two_entries_def stamped_resp_def)

text \<open>No route of the table, and not the default either, asks for \<^verbatim>\<open>NETWORK_ONLY\<close>.\<close>

lemma findMatchingRoute_not_network_only: "strategy (findMatchingRoute u) \<noteq> NETWORK_ONLY"
  by (simp add: findMatchingRoute_def ROUTE_CONFIG_def static_route_def models_route_def
      images_route_def api_route_def html_route_def default_route_def)

subsection \<open>Stamping\<close>








































subsection \<open>Install\<close>

lemma install_never_rejects: "waitUntil_promise (install net st) = Fulfilled"
  by (simp add: install_def Let_def split: prod.splits option.splits)

lemma caches_fold_fetch: "caches (fold (\<lambda>u s. snd (fetch net u s)) urls st) = caches st"
  by (induction urls arbitrary: st) (simp_all add: fetch_def caches_emit)

lemma install_failed_addAll:
  assumes "\<not> list_all (\<lambda>u. fetched_ok (net u)) STATIC_ASSETS"
  shows "waitUntil_promise (install net st) = Fulfilled"
    and "skipWaiting_called (install net st) = False"
    and "store_of (caches (after_install (install net st))) m = store_of (caches st) m"
  using assms
  by (simp_all add: install_def cache_addAll_def Let_def caches_fold_fetch store_of_caches_open)

lemma script_missing_fails: "\<not> list_all (\<lambda>u. fetched_ok (script_missing u)) STATIC_ASSETS"
  by (simp add: STATIC_ASSETS_def script_missing_def fetched_ok_def)

text \<open>
  C3. One asset of the install manifest, \<^verbatim>\<open>/js/script.js\<close>, cannot be fetched.
  \<^verbatim>\<open>addAll\<close> rejects and stores nothing, \<^verbatim>\<open>skipWaiting\<close> is not called; but the
  \<^verbatim>\<open>catch\<close> of the handler only logs, so the promise given to \<^verbatim>\<open>event.waitUntil\<close> is
  fulfilled, not rejected.
\<close>

theorem install_swallows_failure:
  "script_missing ''/js/script.js'' = Inl (NetworkError ''Failed to fetch'')
   \<and> waitUntil_promise (install script_missing empty_state) = Fulfilled
   \<and> skipWaiting_called (install script_missing empty_state) = False
   \<and> store_of (caches (after_install (install script_missing empty_state))) STATIC_CACHE = []"
proof -
  have "store_of (caches empty_state) STATIC_CACHE = []"
    by (simp add: empty_state_def store_of_def)
  moreover have "script_missing ''/js/script.js'' = Inl (NetworkError ''Failed to fetch'')"
    by (simp add: script_missing_def)
  ultimately show ?thesis
    using install_failed_addAll(1) [OF script_missing_fails, of empty_state]
      install_failed_addAll(2) [OF script_missing_fails, of empty_state]
      install_failed_addAll(3) [OF script_missing_fails, of empty_state STATIC_CACHE]
    by simp
qed

end
